theory Spec2Isabelle
  imports Main "HOL-Library.Sublist"
begin

section \<open>Python values and exceptions\<close>

text \<open>
  The remote API answers with parsed JSON, which the program reads as duck-typed Python
  values: dictionaries indexed by string keys, lists, strings, integers and \<open>None\<close>.
  A dictionary is an association list; \<open>map_of\<close> reads it.  Strings are lists of
  UTF-8 code units: every character the program tests for is an ASCII character, and such
  a code unit never occurs inside the encoding of another character.
\<close>

datatype pyval =
    PNone
  | PInt int
  | PStr string
  | PList "pyval list"
  | PDict "(string \<times> pyval) list"

text \<open>
  The exceptions of the program and its libraries.  \<open>Unmodelled\<close> is not an
  exception: it marks an input on which this model does not say what Python does.
\<close>

datatype error =
    AttributeError
  | KeyError
  | TypeError
  | ReError
  | FileNotFoundError
  | DuplicateOptionError
  | DuplicateSectionError
  | MissingSectionHeaderError
  | ParsingError
  | InterpolationSyntaxError
  | RemoteError string
  | Unmodelled

text \<open>Truth value of a Python object, as \<open>if not x\<close> tests it.\<close>

fun truthy :: "pyval \<Rightarrow> bool" where
  "truthy PNone = False"
| "truthy (PInt i) = (i \<noteq> 0)"
| "truthy (PStr s) = (s \<noteq> [])"
| "truthy (PList xs) = (xs \<noteq> [])"
| "truthy (PDict kvs) = (kvs \<noteq> [])"

text \<open>\<open>d[key]\<close> with a string key: only a dictionary holding the key answers.\<close>

fun getitem :: "pyval \<Rightarrow> string \<Rightarrow> error + pyval" where
  "getitem (PDict kvs) k = (case map_of kvs k of None \<Rightarrow> Inl KeyError | Some v \<Rightarrow> Inr v)"
| "getitem _ k = Inl TypeError"

text \<open>Iteration \<open>for d in x\<close>: a list gives its elements, a dictionary its keys, a
  string its characters; \<open>None\<close> and integers are not iterable.\<close>

fun py_iter :: "pyval \<Rightarrow> error + pyval list" where
  "py_iter (PList xs) = Inr xs"
| "py_iter (PDict kvs) = Inr (map (\<lambda>kv. PStr (fst kv)) kvs)"
| "py_iter (PStr s) = Inr (map (\<lambda>c. PStr [c]) s)"
| "py_iter _ = Inl TypeError"

section \<open>NameSanitizer: \<open>clean_filename\<close> and \<open>get_item_from_dict_list\<close>\<close>

text \<open>
  \<^verbatim>\<open>for char in '<>:]"/\\|?*.': filename = filename.replace(char, "")\<close>
  Replacing a one-character string by the empty string deletes every occurrence of it.
\<close>

definition illegal_chars :: "char list" where
  "illegal_chars =
     [CHR ''<'', CHR ''>'', CHR '':'', CHR '']'', CHR 0x22, CHR ''/'', CHR 0x5C,
      CHR ''|'', CHR ''?'', CHR ''*'', CHR ''.'']"

definition remove_char :: "string \<Rightarrow> char \<Rightarrow> string" where
  "remove_char s c = filter (\<lambda>x. x \<noteq> c) s"

definition clean_filename :: "string \<Rightarrow> string" where
  "clean_filename filename = foldl remove_char filename illegal_chars"

text \<open>
  \<^verbatim>\<open>next((dict for dict in dict_list
        if clean_filename(dict[key]).lower() == clean_filename(matching).lower()), None)\<close>
  The generator is lazy: the first element that matches is returned before later
  elements are looked at, and an element without the key, or whose value is not a
  string, raises before any later element is tried.
  \<open>str.lower\<close> belongs to the Python runtime: it maps every cased character of
  Unicode, by a table that is no part of the program.  It is the first argument
  \<open>lower\<close> here, and the component \<open>str_lower\<close> of the environment below; nothing
  is assumed about it.
\<close>

fun find_item ::
  "(string \<Rightarrow> string) \<Rightarrow> pyval list \<Rightarrow> string \<Rightarrow> string \<Rightarrow> error + pyval"
where
  "find_item lower [] key matching = Inr PNone"
| "find_item lower (d # ds) key matching =
     (case getitem d key of
        Inl e \<Rightarrow> Inl e
      | Inr (PStr s) \<Rightarrow>
          if lower (clean_filename s) = lower (clean_filename matching) then Inr d
          else find_item lower ds key matching
      | Inr _ \<Rightarrow> Inl AttributeError)"

definition get_item_from_dict_list ::
  "(string \<Rightarrow> string) \<Rightarrow> pyval \<Rightarrow> string \<Rightarrow> string \<Rightarrow> error + pyval"
where
  "get_item_from_dict_list lower dict_list key_to_check matching_string =
     (case py_iter dict_list of
        Inl e \<Rightarrow> Inl e
      | Inr ds \<Rightarrow> find_item lower ds key_to_check matching_string)"

text \<open>Two names match when their sanitized forms agree up to case.\<close>

definition names_match :: "(string \<Rightarrow> string) \<Rightarrow> string \<Rightarrow> string \<Rightarrow> bool" where
  "names_match lower a b = (lower (clean_filename a) = lower (clean_filename b))"

text \<open>A remote record that carries a string under the key.\<close>

definition has_str :: "string \<Rightarrow> pyval \<Rightarrow> bool" where
  "has_str key d = (case getitem d key of Inr (PStr s) \<Rightarrow> True | _ \<Rightarrow> False)"

definition str_of :: "string \<Rightarrow> pyval \<Rightarrow> string" where
  "str_of key d = (case getitem d key of Inr (PStr s) \<Rightarrow> s | _ \<Rightarrow> [])"

section \<open>String operations of the Python library\<close>

text \<open>
  \<open>str.replace(old, new)\<close>, and \<open>re.sub(re.escape(old), new, s)\<close> once the
  replacement template is expanded: the occurrences of \<open>old\<close> are found from the left and
  do not overlap.  An empty \<open>old\<close> matches before every character and at the end.
\<close>

function replace_all :: "string \<Rightarrow> string \<Rightarrow> string \<Rightarrow> string" where
  "replace_all old new s =
     (if old = [] then new @ concat (map (\<lambda>c. c # new) s)
      else if prefix old s then new @ replace_all old new (drop (length old) s)
      else (case s of [] \<Rightarrow> [] | c # cs \<Rightarrow> c # replace_all old new cs))"
  by pat_completeness auto
termination
  by (relation "measure (\<lambda>(old, new, s). length s)") (auto simp: prefix_def)

declare replace_all.simps [simp del]

definition is_nl :: "char \<Rightarrow> bool" where
  "is_nl c = (c = CHR 0x0A \<or> c = CHR 0x0D)"

definition hash :: char where
  "hash = CHR ''#''"

definition bang :: char where
  "bang = CHR ''!''"

definition lparen :: char where
  "lparen = CHR ''(''"

definition backslash :: char where
  "backslash = CHR 0x5C"

text \<open>
  \<^verbatim>\<open>TITLE_REGEX = f"#\[Title]#+[\r\n]+([^\r\n]+)"\<close>
  \<^verbatim>\<open>EVIDENCE_ID_REGEX = f"#\[EvidenceID]#+[\r\n]+([^\r\n]+)"\<close>
  Both have the shape: a literal, one or more \<open>#\<close>, one or more line breaks, and a
  captured run of characters that are not line breaks.  The three repetitions are greedy
  and range over classes that exclude the character each one must be followed by, so
  giving back a character never helps: a match at a position, if any, takes the longest
  run of each.  \<open>field_match_at lit s\<close> is the match anchored at the start of \<open>s\<close>:
  the captured group and the length of the whole match.
\<close>

definition field_match_at :: "string \<Rightarrow> string \<Rightarrow> (string \<times> nat) option" where
  "field_match_at lit s =
     (if prefix lit s then
        (let r1 = drop (length lit) s;
             hs = takeWhile (\<lambda>c. c = hash) r1;
             r2 = dropWhile (\<lambda>c. c = hash) r1;
             ns = takeWhile is_nl r2;
             r3 = dropWhile is_nl r2;
             v = takeWhile (\<lambda>c. \<not> is_nl c) r3
         in if hs \<noteq> [] \<and> ns \<noteq> [] \<and> v \<noteq> []
            then Some (v, length lit + length hs + length ns + length v)
            else None)
      else None)"

text \<open>\<open>re.search\<close>: the leftmost position with a match; the result is group 1.\<close>

fun field_search :: "string \<Rightarrow> string \<Rightarrow> string option" where
  "field_search lit [] = map_option fst (field_match_at lit [])"
| "field_search lit (c # cs) =
     (case field_match_at lit (c # cs) of
        Some (v, n) \<Rightarrow> Some v
      | None \<Rightarrow> field_search lit cs)"



definition title_lit :: string where
  "title_lit = ''#[Title]''"


text \<open>
  \<^verbatim>\<open>r = re.compile("(?P<match>!(?P<path>.*?)(?P<caption>\(.*?)?!)")\<close>
  \<open>.\<close> matches every character but the line feed.  From an opening \<open>!\<close> the lazy
  path grows one character at a time; at each length the optional caption is tried
  first (an opening parenthesis, then lazily up to the next \<open>!\<close>), then a bare
  \<open>!\<close>.  So a match exists exactly when another \<open>!\<close> follows before the next line
  feed, it ends at the first such \<open>!\<close>, the path stops at the first parenthesis
  and the caption, when there is one, is the rest.
\<close>

record attachment =
  match :: string
  path :: string
  caption :: "string option"

definition attachment_of :: "string \<Rightarrow> attachment" where
  "attachment_of body =
     \<lparr> match = bang # body @ [bang],
       path = takeWhile (\<lambda>c. c \<noteq> lparen) body,
       caption = (if lparen \<in> set body then Some (dropWhile (\<lambda>c. c \<noteq> lparen) body)
                  else None) \<rparr>"

function finditer :: "string \<Rightarrow> attachment list" where
  "finditer [] = []"
| "finditer (c # cs) =
     (if c = bang \<and> bang \<in> set (takeWhile (\<lambda>x. x \<noteq> CHR 0x0A) cs)
      then attachment_of (takeWhile (\<lambda>x. x \<noteq> bang) cs)
             # finditer (drop (Suc (length (takeWhile (\<lambda>x. x \<noteq> bang) cs))) cs)
      else finditer cs)"
  by pat_completeness auto
termination
  by (relation "measure length") auto

declare finditer.simps(2) [simp del]

text \<open>
  The replacement string of \<open>re.sub\<close> is a template.  Without a backslash it stands
  for itself.  A backslash before \<open>a b f n r t v\<close> or a backslash gives the control
  character; before another ASCII letter it is an error (\<open>bad escape\<close>), as is a
  backslash that ends the template; before any other character that is not a digit both
  characters stay.  Group references (\<open>\g\<close> and digits) are outside this model.
\<close>

definition is_ascii_letter :: "char \<Rightarrow> bool" where
  "is_ascii_letter c =
     (((65::nat) \<le> of_char c \<and> of_char c \<le> (90::nat)) \<or>
      ((97::nat) \<le> of_char c \<and> of_char c \<le> (122::nat)))"

definition is_digit :: "char \<Rightarrow> bool" where
  "is_digit c = ((48::nat) \<le> of_char c \<and> of_char c \<le> (57::nat))"

definition escape_char :: "char \<Rightarrow> char option" where
  "escape_char c =
     (if c = CHR ''a'' then Some (CHR 0x07)
      else if c = CHR ''b'' then Some (CHR 0x08)
      else if c = CHR ''f'' then Some (CHR 0x0C)
      else if c = CHR ''n'' then Some (CHR 0x0A)
      else if c = CHR ''r'' then Some (CHR 0x0D)
      else if c = CHR ''t'' then Some (CHR 0x09)
      else if c = CHR ''v'' then Some (CHR 0x0B)
      else if c = backslash then Some backslash
      else None)"

fun expand_template :: "string \<Rightarrow> error + string" where
  "expand_template [] = Inr []"
| "expand_template [c] = (if c = backslash then Inl ReError else Inr [c])"
| "expand_template (c # x # rest) =
     (if c \<noteq> backslash then map_sum id ((#) c) (expand_template (x # rest))
      else (case escape_char x of
              Some e \<Rightarrow> map_sum id ((#) e) (expand_template rest)
            | None \<Rightarrow>
                if x = CHR ''g'' \<or> is_digit x then Inl Unmodelled
                else if is_ascii_letter x then Inl ReError
                else map_sum id (\<lambda>r. c # x # r) (expand_template rest)))"

definition re_sub_literal :: "string \<Rightarrow> string \<Rightarrow> string \<Rightarrow> error + string" where
  "re_sub_literal pat repl s =
     (case expand_template repl of
        Inl e \<Rightarrow> Inl e
      | Inr new \<Rightarrow> Inr (replace_all pat new s))"

section \<open>Paths\<close>

text \<open>
  A path written in a document is a string, read by \<open>pathlib\<close> in its POSIX flavour:
  the components are the pieces between slashes, without the empty ones and the
  single dots.  \<open>name\<close> is the last component, \<open>as_posix\<close> joins the components
  again behind the root.
\<close>

fun split_on :: "char \<Rightarrow> string \<Rightarrow> string list" where
  "split_on sep [] = [[]]"
| "split_on sep (c # cs) =
     (if c = sep then [] # split_on sep cs
      else (case split_on sep cs of
              [] \<Rightarrow> [[c]]
            | w # ws \<Rightarrow> (c # w) # ws))"

definition path_parts :: "string \<Rightarrow> string list" where
  "path_parts p = filter (\<lambda>w. w \<noteq> [] \<and> w \<noteq> ''.'') (split_on CHR ''/'' p)"

definition path_root :: "string \<Rightarrow> string" where
  "path_root p =
     (let n = length (takeWhile (\<lambda>c. c = CHR ''/'') p)
      in if n = 0 then [] else if n = 2 then ''//'' else ''/'')"

definition path_name :: "string \<Rightarrow> string" where
  "path_name p = (case path_parts p of [] \<Rightarrow> [] | w # ws \<Rightarrow> last (w # ws))"

fun join_with :: "char \<Rightarrow> string list \<Rightarrow> string" where
  "join_with sep [] = []"
| "join_with sep [w] = w"
| "join_with sep (w # v # ws) = w @ sep # join_with sep (v # ws)"

definition as_posix :: "string \<Rightarrow> string" where
  "as_posix p =
     (if path_root p = [] \<and> path_parts p = [] then ''.''
      else path_root p @ join_with CHR ''/'' (path_parts p))"

text \<open>
  A \<open>Path\<close> object handed to the exporter is the list of its components; \<open>name\<close> of
  a path without components is the empty string and its \<open>parent\<close> is itself.
\<close>

type_synonym fpath = "string list"

definition name_of :: "fpath \<Rightarrow> string" where
  "name_of p = (if p = [] then [] else last p)"

definition parent :: "fpath \<Rightarrow> fpath" where
  "parent p = butlast p"

text \<open>\<open>suffix\<close>: from the last dot of the name, unless that dot is first or last.\<close>

definition suffix_of :: "fpath \<Rightarrow> string" where
  "suffix_of p =
     (let n = name_of p; tl_len = length (takeWhile (\<lambda>c. c \<noteq> CHR ''.'') (rev n))
      in if CHR ''.'' \<in> set n \<and> tl_len \<noteq> 0 \<and> Suc tl_len \<noteq> length n
         then drop (length n - Suc tl_len) n
         else [])"

text \<open>Decimal numerals, as \<open>str\<close> and f-strings write integers.\<close>

function string_of_nat :: "nat \<Rightarrow> string" where
  "string_of_nat n =
     (if n < 10 then [char_of (48 + n)]
      else string_of_nat (n div 10) @ [char_of (48 + n mod 10)])"
  by pat_completeness auto
termination
  by (relation "measure id") auto

declare string_of_nat.simps [simp del]

definition string_of_int :: "int \<Rightarrow> string" where
  "string_of_int i =
     (if i < 0 then CHR ''-'' # string_of_nat (nat (- i)) else string_of_nat (nat i))"

text \<open>\<open>f"{x}"\<close>: strings stand for themselves; the \<open>repr\<close> of containers is outside
  this model.\<close>

fun format :: "pyval \<Rightarrow> error + string" where
  "format (PStr s) = Inr s"
| "format (PInt i) = Inr (string_of_int i)"
| "format PNone = Inr ''None''"
| "format _ = Inl Unmodelled"

section \<open>The session, the remote API and the local disk\<close>

text \<open>
  Every method of the API wrapper is one constructor; its arguments are the arguments
  of the call.  The project id comes from the command line and is a string.
\<close>

datatype call =
    GetProject string
  | GetAllIssues string
  | GetAllNodes string
  | GetAllContentblocks string
  | GetAllAttachments string pyval
  | CreateAttachment string pyval "fpath list"
  | CreateContentblock string string string
  | UpdateContentblock string pyval string
  | UpdateDocprop string string string
  | CreateIssue string string
  | UpdateIssue string pyval string
  | CreateNode string string int
  | UpdateEvidence string pyval pyval string string
  | CreateEvidence string pyval pyval string

text \<open>The warnings and errors the exporter logs, one constructor for each message.\<close>

datatype log_entry =
    WarnNoTitle string
  | WarnNotMarkup string
  | WarnAttachmentMissing fpath
  | WarnIssueNotFound string
  | WarnUpdateFailed string
  | WarnNoFolder string
  | ErrReadFailed fpath
  | ErrPropertyFailed string
  | ErrNodeId fpath
  | ErrNoProject string
  | ErrNoPath fpath

text \<open>
  What lies outside the program: the remote platform (its answer to a call may depend
  on the calls made before), the directory structure of the local disk, the document
  converter and the case mapping \<open>str.lower\<close> of the Python runtime.
\<close>

record env =
  respond :: "call list \<Rightarrow> call \<Rightarrow> error + pyval"
  is_file :: "fpath \<Rightarrow> bool"
  is_dir :: "fpath \<Rightarrow> bool"
  iterdir :: "fpath \<Rightarrow> fpath list"
  resolve :: "fpath \<Rightarrow> string \<Rightarrow> fpath"
  pandoc :: "string \<Rightarrow> string option"
  str_lower :: "string \<Rightarrow> string"

text \<open>
  The \<open>DradisMD\<close> object with its two caches, the calls made so far (oldest first),
  the log, and the text of the local files.
\<close>

record session =
  issue_list :: pyval
  dradis_nodes :: pyval
  calls :: "call list"
  logs :: "log_entry list"
  files :: "fpath \<Rightarrow> string option"

definition new_session :: "(fpath \<Rightarrow> string option) \<Rightarrow> session" where
  "new_session fs =
     \<lparr> issue_list = PDict [], dradis_nodes = PDict [], calls = [], logs = [], files = fs \<rparr>"

type_synonym 'a run = "session \<Rightarrow> (error + 'a) \<times> session"

definition ret :: "'a \<Rightarrow> 'a run" where
  "ret x = (\<lambda>s. (Inr x, s))"

definition lift :: "error + 'a \<Rightarrow> 'a run" where
  "lift r = (\<lambda>s. (r, s))"

definition bnd :: "'a run \<Rightarrow> ('a \<Rightarrow> 'b run) \<Rightarrow> 'b run" where
  "bnd m f = (\<lambda>s. case m s of (Inl e, s') \<Rightarrow> (Inl e, s') | (Inr x, s') \<Rightarrow> f x s')"

definition try_except :: "'a run \<Rightarrow> (error \<Rightarrow> 'a run) \<Rightarrow> 'a run" where
  "try_except m h = (\<lambda>s. case m s of (Inl e, s') \<Rightarrow> h e s' | (Inr x, s') \<Rightarrow> (Inr x, s'))"

definition api :: "env \<Rightarrow> call \<Rightarrow> pyval run" where
  "api E c = (\<lambda>s. (respond E (calls s) c, s\<lparr>calls := calls s @ [c]\<rparr>))"

definition log :: "log_entry \<Rightarrow> unit run" where
  "log l = (\<lambda>s. (Inr (), s\<lparr>logs := logs s @ [l]\<rparr>))"

definition read_text :: "fpath \<Rightarrow> string run" where
  "read_text f =
     (\<lambda>s. (case files s f of None \<Rightarrow> Inl FileNotFoundError | Some t \<Rightarrow> Inr t, s))"

definition write_text :: "fpath \<Rightarrow> string \<Rightarrow> unit run" where
  "write_text f t = (\<lambda>s. (Inr (), s\<lparr>files := (files s)(f \<mapsto> t)\<rparr>))"


section \<open>MarkupFieldParser\<close>

text \<open>
  \<^verbatim>\<open>match = re.search(TITLE_REGEX, content)
  title = match.group(1)
  if not match or title.startswith("#["): return ""
  else: return title\<close>
  \<open>group\<close> is called before \<open>match\<close> is tested.
\<close>

definition get_title :: "string \<Rightarrow> error + string" where
  "get_title content =
     (case field_search title_lit content of
        None \<Rightarrow> Inl AttributeError
      | Some title \<Rightarrow> if prefix ''#['' title then Inr [] else Inr title)"

text \<open>
  \<open>get_textile_content\<close>: a \<open>.textile\<close> file is read as it is; a \<open>.md\<close> file is
  read and converted inside a \<open>try\<close> whose handler logs and returns the empty string;
  a converter that gives nothing yields \<open>None\<close>, which the callers treat like the
  empty string; any other extension is skipped with a warning.
\<close>

definition get_textile_content :: "env \<Rightarrow> fpath \<Rightarrow> string run" where
  "get_textile_content E file =
     (if suffix_of file \<noteq> ''.textile'' then
        (if suffix_of file \<in> set [''.textile'', ''.md''] then
           try_except
             (bnd (read_text file) (\<lambda>content.
                ret (case pandoc E content of None \<Rightarrow> [] | Some t \<Rightarrow> t)))
             (\<lambda>e. bnd (log (ErrReadFailed file)) (\<lambda>_. ret []))
         else bnd (log (WarnNotMarkup (name_of file))) (\<lambda>_. ret []))
      else read_text file)"

section \<open>NodeResolver\<close>

definition minus_one :: "pyval \<Rightarrow> error + pyval" where
  "minus_one v = (case v of PInt i \<Rightarrow> Inr (PInt (i - 1)) | _ \<Rightarrow> Inl TypeError)"

text \<open>
  \<^verbatim>\<open>if not self.dradis_nodes: self.dradis_nodes = self.api.get_all_nodes(project_id)\<close>
  and the same for \<open>issue_list\<close>; the result is the list the following statements read.
\<close>

definition fetch_nodes :: "env \<Rightarrow> string \<Rightarrow> pyval run" where
  "fetch_nodes E project_id =
     (\<lambda>s. if \<not> truthy (dradis_nodes s)
           then bnd (api E (GetAllNodes project_id))
                  (\<lambda>r s'. (Inr r, s'\<lparr>dradis_nodes := r\<rparr>)) s
           else (Inr (dradis_nodes s), s))"

definition fetch_issues :: "env \<Rightarrow> string \<Rightarrow> pyval run" where
  "fetch_issues E project_id =
     (\<lambda>s. if \<not> truthy (issue_list s)
           then bnd (api E (GetAllIssues project_id))
                  (\<lambda>r s'. (Inr r, s'\<lparr>issue_list := r\<rparr>)) s
           else (Inr (issue_list s), s))"

text \<open>The node id is returned as a string (an f-string), or \<open>None\<close> with an error
  logged when the path has neither shape.\<close>

definition get_node_id_from_file :: "env \<Rightarrow> string \<Rightarrow> fpath \<Rightarrow> pyval run" where
  "get_node_id_from_file E project_id file_path =
     bnd (fetch_nodes E project_id) (\<lambda>nodes.
       if name_of (parent file_path) = ''Content Blocks'' then
         lift (case get_item_from_dict_list (str_lower E) nodes ''label'' ''Uploaded files'' of
                 Inl e \<Rightarrow> Inl e
               | Inr uploaded_files_node \<Rightarrow>
                   (case getitem uploaded_files_node ''id'' of
                      Inl e \<Rightarrow> Inl e
                    | Inr i \<Rightarrow>
                        (case minus_one i of
                           Inl e \<Rightarrow> Inl e
                         | Inr j \<Rightarrow> map_sum id PStr (format j))))
       else if name_of (parent (parent file_path)) = ''Evidences'' then
         lift (case get_item_from_dict_list (str_lower E) nodes ''label''
                      (name_of (parent (parent (parent file_path)))) of
                 Inl e \<Rightarrow> Inl e
               | Inr evidence_node \<Rightarrow>
                   (case getitem evidence_node ''id'' of
                      Inl e \<Rightarrow> Inl e
                    | Inr i \<Rightarrow> map_sum id PStr (format i)))
       else bnd (log (ErrNodeId file_path)) (\<lambda>_. ret PNone))"

section \<open>AttachmentRewriter\<close>

text \<open>\<^verbatim>\<open>any(d["filename"] == name for d in existing_nodes_attachments)\<close>\<close>

fun any_filename :: "pyval list \<Rightarrow> string \<Rightarrow> error + bool" where
  "any_filename [] n = Inr False"
| "any_filename (d # ds) n =
     (case getitem d ''filename'' of
        Inl e \<Rightarrow> Inl e
      | Inr v \<Rightarrow> if v = PStr n then Inr True else any_filename ds n)"

definition listed_remotely :: "pyval \<Rightarrow> string \<Rightarrow> error + bool" where
  "listed_remotely existing n =
     (case py_iter existing of Inl e \<Rightarrow> Inl e | Inr ds \<Rightarrow> any_filename ds n)"

definition canonical :: "string \<Rightarrow> attachment \<Rightarrow> string" where
  "canonical dradis_dir a =
     bang # dradis_dir @ ''/'' @ path_name (path a) @
       (case caption a of None \<Rightarrow> [] | Some c \<Rightarrow> c) @ [bang]"

text \<open>One turn of the loop over the attachments: the state of the loop is the content
  and the list of files to upload.\<close>

definition attachment_step ::
  "env \<Rightarrow> pyval \<Rightarrow> string \<Rightarrow> fpath \<Rightarrow> attachment \<Rightarrow> string \<times> fpath list \<Rightarrow>
     (string \<times> fpath list) run"
where
  "attachment_step E existing dradis_dir file_path a st =
     (case st of (content, fs) \<Rightarrow>
        bnd (lift (listed_remotely existing (replace_all ''%20'' '' '' (path_name (path a)))))
          (\<lambda>listed.
             let full = resolve E file_path (replace_all ''%20'' '' '' (as_posix (path a)))
             in if \<not> listed \<and> \<not> is_file E full
                then bnd (log (WarnAttachmentMissing full)) (\<lambda>_. ret (content, fs))
                else bnd (lift (re_sub_literal (match a) (canonical dradis_dir a) content))
                       (\<lambda>content'. ret (content', if listed then fs else fs @ [full]))))"

fun attachment_loop ::
  "env \<Rightarrow> pyval \<Rightarrow> string \<Rightarrow> fpath \<Rightarrow> attachment list \<Rightarrow> string \<times> fpath list \<Rightarrow>
     (string \<times> fpath list) run"
where
  "attachment_loop E existing dradis_dir file_path [] st = ret st"
| "attachment_loop E existing dradis_dir file_path (a # as) st =
     bnd (attachment_step E existing dradis_dir file_path a st)
       (attachment_loop E existing dradis_dir file_path as)"

definition handle_attachments ::
  "env \<Rightarrow> string \<Rightarrow> pyval \<Rightarrow> string \<Rightarrow> fpath \<Rightarrow> string run"
where
  "handle_attachments E project_id node_id content file_path =
     bnd (api E (GetAllAttachments project_id node_id)) (\<lambda>existing.
       if finditer content = [] then ret content
       else
         bnd (lift (format node_id)) (\<lambda>node.
           bnd (attachment_loop E existing
                  (''/pro/projects/'' @ project_id @ ''/nodes/'' @ node @ ''/attachments'')
                  file_path (finditer content) (content, []))
             (\<lambda>(content', fs).
                if fs \<noteq> []
                then bnd (api E (CreateAttachment project_id node_id fs)) (\<lambda>_. ret content')
                else ret content')))"

section \<open>EntityReconciler\<close>

definition export_content_block :: "env \<Rightarrow> string \<Rightarrow> fpath \<Rightarrow> unit run" where
  "export_content_block E project_id file =
     bnd (get_textile_content E file) (\<lambda>content.
       if content = [] then ret ()
       else
         bnd (lift (get_title content)) (\<lambda>title.
           if title = [] then log (WarnNoTitle (name_of file))
           else
             bnd (get_node_id_from_file E project_id file) (\<lambda>node_id.
             bnd (handle_attachments E project_id node_id content (parent file)) (\<lambda>content'.
             bnd (api E (GetAllContentblocks project_id)) (\<lambda>dradis_content_blocks.
             bnd (lift (get_item_from_dict_list (str_lower E) dradis_content_blocks ''title'' title))
               (\<lambda>title_found.
                  if \<not> truthy title_found
                  then bnd (api E (CreateContentblock project_id content' title)) (\<lambda>_. ret ())
                  else bnd (lift (getitem title_found ''id'')) (\<lambda>block_id.
                       bnd (api E (UpdateContentblock project_id block_id content'))
                         (\<lambda>_. ret ()))))))))"



















definition read_if_present :: "fpath \<Rightarrow> string option run" where
  "read_if_present f = (\<lambda>s. (Inr (files s f), s))"


definition export_issue :: "env \<Rightarrow> string \<Rightarrow> fpath \<Rightarrow> unit run" where
  "export_issue E project_id file =
     bnd (get_textile_content E file) (\<lambda>content.
       if content = [] then ret ()
       else
         bnd (lift (get_title content)) (\<lambda>title.
           if title = [] then log (WarnNoTitle (name_of file))
           else
             bnd (fetch_issues E project_id) (\<lambda>issues.
               bnd (lift (get_item_from_dict_list (str_lower E) issues ''title'' title))
                 (\<lambda>issue_found.
                    if \<not> truthy issue_found
                    then bnd (api E (CreateIssue project_id content)) (\<lambda>_. ret ())
                    else bnd (lift (getitem issue_found ''id'')) (\<lambda>issue_id.
                         bnd (api E (UpdateIssue project_id issue_id content))
                           (\<lambda>_. ret ()))))))"


definition evidence_block :: "string \<Rightarrow> string" where
  "evidence_block evidence_id =
     [CHR 0x0A] @ ''#[EvidenceID]#'' @ [CHR 0x0A, CHR 0x0A] @ evidence_id @ [CHR 0x0A]"



section \<open>ProjectTreeWalker\<close>











section \<open>Counting the list fetches\<close>



fun is_upload :: "call \<Rightarrow> bool" where
  "is_upload (CreateAttachment project_id node_id fs) = True"
| "is_upload _ = False"


section \<open>A sample project\<close>

text \<open>
  A small project tree and a remote platform, used to run the exporter on concrete
  inputs.  The remote knows one issue and two nodes, holds one attachment, rejects the
  creation of the issue titled CSRF and the update of evidence 999, and gives every new
  evidence the id 42.
\<close>

definition nl :: string where
  "nl = [CHR 0x0A]"

definition issue_text :: "string \<Rightarrow> string" where
  "issue_text title =
     ''#[Title]#'' @ nl @ title @ nl @ nl @ ''#[Description]#'' @ nl @ ''To be written'' @ nl"

definition sample_issues :: pyval where
  "sample_issues = PList [PDict [(''id'', PInt 3), (''title'', PStr ''SQL: Injection'')]]"

definition sample_nodes :: pyval where
  "sample_nodes =
     PList [PDict [(''id'', PInt 11), (''label'', PStr ''web-01'')],
            PDict [(''id'', PInt 15), (''label'', PStr ''Uploaded files'')]]"

definition sample_respond :: "call list \<Rightarrow> call \<Rightarrow> error + pyval" where
  "sample_respond history c =
     (case c of
        GetProject project_id \<Rightarrow> Inr (PDict [(''id'', PInt 1), (''name'', PStr ''Demo'')])
      | GetAllIssues project_id \<Rightarrow> Inr sample_issues
      | GetAllNodes project_id \<Rightarrow> Inr sample_nodes
      | GetAllAttachments project_id node_id \<Rightarrow>
          Inr (PList [PDict [(''filename'', PStr ''old shot.png'')]])
      | CreateIssue project_id content \<Rightarrow>
          if content = issue_text ''CSRF'' then Inl (RemoteError ''500'')
          else Inr (PDict [(''id'', PInt 9)])
      | UpdateEvidence project_id node_id issue_id evidence_id content \<Rightarrow>
          if evidence_id = ''999'' then Inl (RemoteError ''404'') else Inr (PDict [])
      | CreateEvidence project_id node_id issue_id content \<Rightarrow> Inr (PDict [(''id'', PInt 42)])
      | _ \<Rightarrow> Inr (PDict []))"

definition issues_dir :: fpath where
  "issues_dir = [''proj'', ''Issues'']"

definition evidence_dir :: fpath where
  "evidence_dir = [''proj'', ''Nodes'', ''web-01'', ''Evidences'', ''SQL Injection'']"

definition sample_dirs :: "fpath list" where
  "sample_dirs =
     [[''proj''], issues_dir, [''proj'', ''Nodes''], [''proj'', ''Nodes'', ''web-01''],
      [''proj'', ''Nodes'', ''web-01'', ''Evidences''], evidence_dir]"

definition sample_files :: "fpath list" where
  "sample_files =
     [issues_dir @ [''a.textile''], issues_dir @ [''b.textile''], issues_dir @ [''c.textile''],
      evidence_dir @ [''e1.textile''], evidence_dir @ [''e2.textile''],
      evidence_dir @ [''new.png'']]"

text \<open>On the ASCII strings of the sample \<open>str.lower\<close> maps the capital letters.\<close>

definition lower_char :: "char \<Rightarrow> char" where
  "lower_char c =
     (if (65::nat) \<le> of_char c \<and> of_char c \<le> (90::nat)
      then char_of (of_char c + (32::nat)) else c)"

definition ascii_lower :: "string \<Rightarrow> string" where
  "ascii_lower s = map lower_char s"

definition properties_text :: string where
  "properties_text =
     ''[DOCUMENT_PROPERTIES]'' @ nl @ ''Client=ACME'' @ nl @ ''# the version'' @ nl @
     ''Report-Version = 1.0'' @ nl @ ''Coverage: 100%%'' @ nl @ nl @
     ''[Other]'' @ nl @ ''client=x'' @ nl"

definition sample_env :: env where
  "sample_env =
     \<lparr> respond = sample_respond,
       is_file = (\<lambda>p. p \<in> set sample_files),
       is_dir = (\<lambda>p. p \<in> set sample_dirs),
       iterdir = (\<lambda>p. filter (\<lambda>q. q \<noteq> [] \<and> parent q = p) (sample_dirs @ sample_files)),
       resolve = (\<lambda>d rel. d @ path_parts rel),
       pandoc = (\<lambda>t. Some t),
       str_lower = ascii_lower \<rparr>"

text \<open>Two evidence files: one that was never exported and refers to a screenshot, one
  that carries the id of an evidence the remote does not know any more.\<close>

definition evidence_text :: string where
  "evidence_text = ''#[Description]#'' @ nl @ ''Proof !new.png! here'' @ nl"

definition stale_text :: string where
  "stale_text = ''#[Description]#'' @ nl @ ''Stale'' @ nl @ evidence_block ''999''"

definition sample_texts :: "fpath \<Rightarrow> string option" where
  "sample_texts =
     [issues_dir @ [''a.textile''] \<mapsto> issue_text ''XSS'',
      issues_dir @ [''b.textile''] \<mapsto> issue_text ''CSRF'',
      issues_dir @ [''c.textile''] \<mapsto> issue_text ''IDOR'',
      evidence_dir @ [''e1.textile''] \<mapsto> evidence_text,
      evidence_dir @ [''e2.textile''] \<mapsto> stale_text,
      [''proj'', ''document_properties.ini''] \<mapsto> properties_text]"


text \<open>The same platform when the node list cannot be fetched, and for a project whose
  node list has no node \<open>Uploaded files\<close>.\<close>

definition offline_env :: env where
  "offline_env =
     sample_env \<lparr> respond := (\<lambda>history c.
        case c of GetAllNodes project_id \<Rightarrow> Inl (RemoteError ''503'')
        | _ \<Rightarrow> sample_respond history c) \<rparr>"

definition bare_env :: env where
  "bare_env =
     sample_env \<lparr> respond := (\<lambda>history c.
        case c of
          GetAllNodes project_id \<Rightarrow>
            Inr (PList [PDict [(''id'', PInt 11), (''label'', PStr ''web-01'')]])
        | _ \<Rightarrow> sample_respond history c) \<rparr>"

section \<open>The session caches\<close>



section \<open>Sanitizer lemmas\<close>

lemmas run_defs = ret_def lift_def bnd_def try_except_def api_def log_def read_text_def
  write_text_def read_if_present_def

lemma clean_filename_filter:
  "clean_filename s = filter (\<lambda>x. x \<notin> set illegal_chars) s"
  by (simp add: clean_filename_def remove_char_def illegal_chars_def conj_commute conj_left_commute
      cong: conj_cong)

lemma find_item_first:
  "list_all (has_str key) ds \<Longrightarrow>
   find_item lower ds key m =
     Inr (case find (\<lambda>d. names_match lower (str_of key d) m) ds of None \<Rightarrow> PNone | Some d \<Rightarrow> d)"
proof (induction ds)
  case Nil
  then show ?case by simp
next
  case (Cons d ds)
  from Cons.prems obtain s where s: "getitem d key = Inr (PStr s)"
    by (auto simp: has_str_def split: sum.splits pyval.splits)
  with Cons show ?case
    by (simp add: names_match_def str_of_def)
qed

lemma get_item_list:
  "list_all (has_str key) ds \<Longrightarrow>
   get_item_from_dict_list lower (PList ds) key m =
     Inr (case find (\<lambda>d. names_match lower (str_of key d) m) ds of None \<Rightarrow> PNone | Some d \<Rightarrow> d)"
  by (simp add: get_item_from_dict_list_def find_item_first)

text \<open>
  C6.  \<open>clean_filename\<close> is idempotent, and looking a name up in a list of remote
  records returns the first record whose sanitized name equals the sanitized name looked
  for, case-insensitively (both sides go through \<open>str.lower\<close>, whatever its case
  mapping is), and \<open>None\<close> when there is no such record: the raw strings are never
  compared.
\<close>

theorem sanitize_idempotent_and_match:
  "clean_filename (clean_filename x) = clean_filename x \<and>
   (list_all (has_str key) ds \<longrightarrow>
      get_item_from_dict_list (str_lower E) (PList ds) key m =
        Inr (case find (\<lambda>d. str_lower E (clean_filename (str_of key d)) =
                              str_lower E (clean_filename m)) ds
             of None \<Rightarrow> PNone | Some d \<Rightarrow> d))"
  using get_item_list [of key ds "str_lower E" m]
  by (simp add: clean_filename_filter names_match_def)

theorem sanitize_idempotent_and_match_witness:
  "clean_filename (clean_filename ''a<b>.c'') = clean_filename ''a<b>.c'' \<and>
   ''SQL: Injection'' \<noteq> ''sql injection.'' \<and>
   get_item_from_dict_list (str_lower sample_env) sample_issues ''title'' ''sql injection.'' =
     Inr (PDict [(''id'', PInt 3), (''title'', PStr ''SQL: Injection'')]) \<and>
   get_item_from_dict_list (str_lower sample_env) sample_issues ''title'' ''SQL Injection 2'' =
     Inr PNone"
proof -
  let ?d = "PDict [(''id'', PInt 3), (''title'', PStr ''SQL: Injection'')]"
  have h: "list_all (has_str ''title'') [?d]"
    by (simp add: has_str_def)
  have e1: "find (\<lambda>d. str_lower sample_env (clean_filename (str_of ''title'' d)) =
                      str_lower sample_env (clean_filename ''sql injection.'')) [?d] = Some ?d"
    by code_simp
  have e2: "find (\<lambda>d. str_lower sample_env (clean_filename (str_of ''title'' d)) =
                      str_lower sample_env (clean_filename ''SQL Injection 2'')) [?d] = None"
    by code_simp
  show ?thesis
    using sanitize_idempotent_and_match
            [of "''a<b>.c''" "''title''" "[?d]" sample_env "''sql injection.''"]
      sanitize_idempotent_and_match
            [of "''a<b>.c''" "''title''" "[?d]" sample_env "''SQL Injection 2''"]
      h e1 e2
    by (simp add: sample_issues_def)
qed

section \<open>MarkupFieldParser: the title\<close>

text \<open>
  C1.  On a content in which the title pattern finds nothing, \<open>get_title\<close> raises
  \<open>AttributeError\<close> (it reads group 1 of a match that is \<open>None\<close>) instead of
  returning the empty string; so the export of an issue file or of a content block file
  without a title ends with that exception, logs no warning and leaves the session as
  it was.  When the line after the marker is itself a marker, \<open>get_title\<close> does return
  the empty string.
\<close>

theorem missing_title_raises:
  assumes "field_search title_lit content = None" and "content \<noteq> []"
    and "suffix_of file = ''.textile''" and "files s file = Some content"
  shows "get_title content = Inl AttributeError \<and>
         export_issue E project_id file s = (Inl AttributeError, s) \<and>
         export_content_block E project_id file s = (Inl AttributeError, s) \<and>
         get_title (''#[Title]#'' @ nl @ ''#['' @ rest) = Inr []"
proof -
  have "field_match_at title_lit (''#[Title]#'' @ nl @ ''#['' @ rest) =
          Some (''#['' @ takeWhile (\<lambda>c. \<not> is_nl c) rest,
                length (''#[Title]#'' @ nl @ ''#['' @ takeWhile (\<lambda>c. \<not> is_nl c) rest))"
    by (simp add: field_match_at_def title_lit_def nl_def hash_def is_nl_def)
  then have "get_title (''#[Title]#'' @ nl @ ''#['' @ rest) = Inr []"
    by (simp add: get_title_def nl_def)
  then show ?thesis
    using assms
    by (simp add: get_title_def export_issue_def export_content_block_def
        get_textile_content_def run_defs)
qed

theorem missing_title_raises_witness:
  "get_title ''To be written'' = Inl AttributeError \<and>
   fst (export_issue sample_env ''1'' (issues_dir @ [''a.textile''])
          (new_session [issues_dir @ [''a.textile''] \<mapsto> ''To be written''])) =
     Inl AttributeError \<and>
   logs (snd (export_issue sample_env ''1'' (issues_dir @ [''a.textile''])
          (new_session [issues_dir @ [''a.textile''] \<mapsto> ''To be written'']))) = []"
proof -
  have a: "field_search title_lit ''To be written'' = None" by code_simp
  have b: "suffix_of (issues_dir @ [''a.textile'']) = ''.textile''" by code_simp
  show ?thesis
    using missing_title_raises [OF a _ b,
        of "new_session [issues_dir @ [''a.textile''] \<mapsto> ''To be written'']" sample_env "''1''"]
    by (simp add: new_session_def)
qed

section \<open>NodeResolver\<close>

lemma map_sum_PStr_not_None [simp]: "map_sum id PStr r \<noteq> Inr PNone"
  by (cases r) auto

text \<open>
  C7 as stated fails: the test for a \<open>Content Blocks\<close> parent comes first, so an
  evidence file of an issue folder named \<open>Content Blocks\<close>, under
  \<open>Nodes/web-01/Evidences/\<close>, resolves to the id of \<open>Uploaded files\<close> minus one (14)
  and not to the id of the node \<open>web-01\<close> (11).
\<close>

theorem content_blocks_test_comes_first:
  "fst (get_node_id_from_file sample_env ''1''
          [''proj'', ''Nodes'', ''web-01'', ''Evidences'', ''Content Blocks'', ''e1.textile'']
          (new_session sample_texts)) = Inr (PStr ''14'') \<and>
   fst (get_node_id_from_file sample_env ''1''
          [''proj'', ''Nodes'', ''web-01'', ''Evidences'', ''SQL Injection'', ''e1.textile'']
          (new_session sample_texts)) = Inr (PStr ''11'')"
  by code_simp

text \<open>
  C7, amended.  \<open>get_node_id_from_file\<close> first makes sure the node list is there; an
  error of that fetch is the result, whatever the path.  With the list, the shapes are
  tested in this order: a path whose parent folder is \<open>Content Blocks\<close> resolves to the
  id of the first node labelled \<open>Uploaded files\<close> minus one (when there is such a node
  with an integer id); otherwise a path whose grandparent folder is \<open>Evidences\<close>
  resolves to the id of the first node whose label matches the folder above
  \<open>Evidences\<close> (sanitized, case-insensitive); any other path gives \<open>None\<close> with an
  error logged and no exception.  The id is returned as a decimal string.
\<close>

theorem node_resolution:
  "(fetch_nodes E project_id s = (Inl e, s') \<longrightarrow>
      get_node_id_from_file E project_id p s = (Inl e, s')) \<and>
   (fetch_nodes E project_id s = (Inr (PList ns), s') \<and> list_all (has_str ''label'') ns \<and>
    name_of (parent p) = ''Content Blocks'' \<and>
    find (\<lambda>d. str_lower E (clean_filename (str_of ''label'' d)) =
               str_lower E (clean_filename ''Uploaded files'')) ns = Some node \<and>
    getitem node ''id'' = Inr (PInt i) \<longrightarrow>
      get_node_id_from_file E project_id p s = (Inr (PStr (string_of_int (i - 1))), s')) \<and>
   (fetch_nodes E project_id s = (Inr (PList ns), s') \<and> list_all (has_str ''label'') ns \<and>
    name_of (parent p) \<noteq> ''Content Blocks'' \<and> name_of (parent (parent p)) = ''Evidences'' \<and>
    find (\<lambda>d. str_lower E (clean_filename (str_of ''label'' d)) =
               str_lower E (clean_filename (name_of (parent (parent (parent p)))))) ns =
      Some node \<and>
    getitem node ''id'' = Inr (PInt i) \<longrightarrow>
      get_node_id_from_file E project_id p s = (Inr (PStr (string_of_int i)), s')) \<and>
   (fetch_nodes E project_id s = (Inr nodes, s') \<and>
    name_of (parent p) \<noteq> ''Content Blocks'' \<and> name_of (parent (parent p)) \<noteq> ''Evidences'' \<longrightarrow>
      get_node_id_from_file E project_id p s =
        (Inr PNone, s'\<lparr>logs := logs s' @ [ErrNodeId p]\<rparr>))"
  by (simp add: get_node_id_from_file_def run_defs get_item_list names_match_def minus_one_def)

theorem node_resolution_witness:
  "fst (get_node_id_from_file sample_env ''1'' [''proj'', ''Content Blocks'', ''intro.textile'']
          (new_session sample_texts)) = Inr (PStr ''14'') \<and>
   fst (get_node_id_from_file sample_env ''1'' (evidence_dir @ [''e1.textile''])
          (new_session sample_texts)) = Inr (PStr ''11'') \<and>
   fst (get_node_id_from_file sample_env ''1'' (issues_dir @ [''a.textile''])
          (new_session sample_texts)) = Inr PNone \<and>
   logs (snd (get_node_id_from_file sample_env ''1'' (issues_dir @ [''a.textile''])
          (new_session sample_texts))) = [ErrNodeId (issues_dir @ [''a.textile''])] \<and>
   fst (get_node_id_from_file offline_env ''1'' (issues_dir @ [''a.textile''])
          (new_session sample_texts)) = Inl (RemoteError ''503'')"
proof -
  let ?s = "new_session sample_texts"
  let ?s' = "?s\<lparr>calls := [GetAllNodes ''1''], dradis_nodes := sample_nodes\<rparr>"
  let ?ns = "[PDict [(''id'', PInt 11), (''label'', PStr ''web-01'')],
              PDict [(''id'', PInt 15), (''label'', PStr ''Uploaded files'')]]"
  have f: "fetch_nodes sample_env ''1'' ?s = (Inr (PList ?ns), ?s')"
    by (simp add: fetch_nodes_def run_defs new_session_def sample_env_def sample_respond_def
        sample_nodes_def)
  have g: "fetch_nodes offline_env ''1'' ?s =
             (Inl (RemoteError ''503''), ?s\<lparr>calls := [GetAllNodes ''1'']\<rparr>)"
    by (simp add: fetch_nodes_def run_defs new_session_def offline_env_def)
  have l: "list_all (has_str ''label'') ?ns"
    by (simp add: has_str_def)
  have u: "find (\<lambda>d. str_lower sample_env (clean_filename (str_of ''label'' d)) =
                     str_lower sample_env (clean_filename ''Uploaded files'')) ?ns =
             Some (PDict [(''id'', PInt 15), (''label'', PStr ''Uploaded files'')])"
    by code_simp
  have w: "find (\<lambda>d. str_lower sample_env (clean_filename (str_of ''label'' d)) =
                     str_lower sample_env (clean_filename (name_of (parent (parent (parent
                        (evidence_dir @ [''e1.textile''])))))))  ?ns =
             Some (PDict [(''id'', PInt 11), (''label'', PStr ''web-01'')])"
    by code_simp
  have p1: "name_of (parent [''proj'', ''Content Blocks'', ''intro.textile'']) = ''Content Blocks''"
    by code_simp
  have p2: "name_of (parent (evidence_dir @ [''e1.textile''])) \<noteq> ''Content Blocks''"
       "name_of (parent (parent (evidence_dir @ [''e1.textile'']))) = ''Evidences''"
    by code_simp+
  have p3: "name_of (parent (issues_dir @ [''a.textile''])) \<noteq> ''Content Blocks''"
       "name_of (parent (parent (issues_dir @ [''a.textile'']))) \<noteq> ''Evidences''"
    by code_simp+
  have d14: "string_of_int (15 - 1) = ''14''" and d11: "string_of_int 11 = ''11''"
    by code_simp+
  show ?thesis
    using node_resolution [of sample_env "''1''" ?s _ ?s'
            "[''proj'', ''Content Blocks'', ''intro.textile'']" ?ns
            "PDict [(''id'', PInt 15), (''label'', PStr ''Uploaded files'')]" 15]
      node_resolution [of sample_env "''1''" ?s _ ?s' "evidence_dir @ [''e1.textile'']" ?ns
            "PDict [(''id'', PInt 11), (''label'', PStr ''web-01'')]" 11]
      node_resolution [of sample_env "''1''" ?s _ ?s' "issues_dir @ [''a.textile'']" ?ns _ _
            "PList ?ns"]
      node_resolution [of offline_env "''1''" ?s "RemoteError ''503''"
            "?s\<lparr>calls := [GetAllNodes ''1'']\<rparr>" "issues_dir @ [''a.textile'']"]
      f g l u w p1 p2 p3 d14 d11
    by (simp add: new_session_def)
qed

text \<open>
  C9.  When the node list (cached, or fetched by this call) holds no node labelled
  \<open>Uploaded files\<close>, a path directly under \<open>Content Blocks\<close> makes
  \<open>get_node_id_from_file\<close> raise \<open>TypeError\<close> (it indexes the \<open>None\<close> that the
  lookup returned); and in every session, whenever \<open>get_node_id_from_file\<close> returns
  \<open>None\<close>, the path has neither the content block shape nor the evidence shape.
\<close>

theorem missing_uploaded_files_raises:
  "(fetch_nodes E project_id s = (Inr (PList ns), s') \<and> list_all (has_str ''label'') ns \<and>
    find (\<lambda>d. str_lower E (clean_filename (str_of ''label'' d)) =
               str_lower E (clean_filename ''Uploaded files'')) ns = None \<and>
    name_of (parent p) = ''Content Blocks'' \<longrightarrow>
      get_node_id_from_file E project_id p s = (Inl TypeError, s')) \<and>
   (fst (get_node_id_from_file E project_id p s) = Inr PNone \<longrightarrow>
      name_of (parent p) \<noteq> ''Content Blocks'' \<and>
      name_of (parent (parent p)) \<noteq> ''Evidences'')"
proof -
  obtain r s1 where f: "fetch_nodes E project_id s = (r, s1)"
    by (cases "fetch_nodes E project_id s")
  show ?thesis
    using f
    by (cases r)
       (auto simp add: get_node_id_from_file_def run_defs get_item_list names_match_def
          split: sum.splits)
qed

theorem missing_uploaded_files_raises_witness:
  "fst (get_node_id_from_file sample_env ''1'' [''proj'', ''Content Blocks'', ''intro.textile'']
      ((new_session sample_texts)
         \<lparr>dradis_nodes := PList [PDict [(''id'', PInt 11), (''label'', PStr ''web-01'')]]\<rparr>)) =
     Inl TypeError \<and>
   fst (get_node_id_from_file bare_env ''1'' [''proj'', ''Content Blocks'', ''intro.textile'']
      (new_session sample_texts)) = Inl TypeError \<and>
   fst (get_node_id_from_file sample_env ''1'' (issues_dir @ [''a.textile''])
      (new_session sample_texts)) = Inr PNone \<and>
   name_of (parent (issues_dir @ [''a.textile''])) \<noteq> ''Content Blocks'' \<and>
   name_of (parent (parent (issues_dir @ [''a.textile'']))) \<noteq> ''Evidences''"
proof -
  let ?ns = "[PDict [(''id'', PInt 11), (''label'', PStr ''web-01'')]]"
  let ?fresh = "new_session sample_texts"
  let ?cached = "?fresh\<lparr>dradis_nodes := PList ?ns\<rparr>"
  let ?t = "?fresh\<lparr>calls := [GetAllNodes ''1''], dradis_nodes := PList ?ns\<rparr>"
  let ?p = "[''proj'', ''Content Blocks'', ''intro.textile'']"
  have n: "fetch_nodes sample_env ''1'' ?cached = (Inr (PList ?ns), ?cached)"
    by (simp add: fetch_nodes_def)
  have m: "fetch_nodes bare_env ''1'' ?fresh = (Inr (PList ?ns), ?t)"
    by (simp add: fetch_nodes_def run_defs new_session_def bare_env_def)
  have l: "list_all (has_str ''label'') ?ns" by (simp add: has_str_def)
  have u: "find (\<lambda>d. str_lower sample_env (clean_filename (str_of ''label'' d)) =
                     str_lower sample_env (clean_filename ''Uploaded files'')) ?ns = None"
    by code_simp
  have v: "find (\<lambda>d. str_lower bare_env (clean_filename (str_of ''label'' d)) =
                     str_lower bare_env (clean_filename ''Uploaded files'')) ?ns = None"
    by code_simp
  have p1: "name_of (parent ?p) = ''Content Blocks''"
    by code_simp
  have r: "fst (get_node_id_from_file sample_env ''1'' (issues_dir @ [''a.textile'']) ?fresh) =
             Inr PNone"
    by code_simp
  show ?thesis
    using missing_uploaded_files_raises [of sample_env "''1''" ?cached ?ns ?cached ?p]
      missing_uploaded_files_raises [of bare_env "''1''" ?fresh ?ns ?t ?p]
      missing_uploaded_files_raises [of sample_env "''1''" ?fresh _ _ "issues_dir @ [''a.textile'']"]
      n m l u v p1 r
    by simp
qed

section \<open>Document properties\<close>








section \<open>Session caches\<close>















































section \<open>Batch export\<close>





end
